theory Spec2Isabelle
  imports Main "HOL-Library.AList"
begin

section \<open>Python values and exceptions\<close>

text \<open>
  The fields of a \<^verbatim>\<open>Proposals\<close> object are dynamically typed and the registry checks
  their classes at run time, so a field holds a tagged Python value.  \<open>PyDatetime\<close> carries
  a timestamp, \<open>PyUser\<close> the id of a \<^verbatim>\<open>discord.User\<close>; \<open>PyInstrumentedList\<close> is
  SQLAlchemy's list subclass, \<open>PyList\<close> a plain list.
\<close>

datatype pyval =
    PyNone
  | PyBool bool
  | PyInt int
  | PyStr string
  | PyDatetime int
  | PyUser int
  | PyList "pyval list"
  | PyInstrumentedList "pyval list"

text \<open>\<^verbatim>\<open>isinstance(v, int)\<close>: \<^verbatim>\<open>bool\<close> is a subclass of \<^verbatim>\<open>int\<close>.\<close>

fun isinstance_int :: "pyval \<Rightarrow> bool" where
  "isinstance_int (PyInt n) = True"
| "isinstance_int (PyBool b) = True"
| "isinstance_int v = False"

fun isinstance_str :: "pyval \<Rightarrow> bool" where
  "isinstance_str (PyStr s) = True"
| "isinstance_str v = False"

fun isinstance_bool :: "pyval \<Rightarrow> bool" where
  "isinstance_bool (PyBool b) = True"
| "isinstance_bool v = False"

fun isinstance_datetime :: "pyval \<Rightarrow> bool" where
  "isinstance_datetime (PyDatetime t) = True"
| "isinstance_datetime v = False"

text \<open>\<^verbatim>\<open>isinstance(v, (discord.User, str, int))\<close>\<close>

fun isinstance_User_str_int :: "pyval \<Rightarrow> bool" where
  "isinstance_User_str_int (PyUser u) = True"
| "isinstance_User_str_int (PyStr s) = True"
| "isinstance_User_str_int (PyInt n) = True"
| "isinstance_User_str_int (PyBool b) = True"
| "isinstance_User_str_int v = False"

fun isinstance_InstrumentedList :: "pyval \<Rightarrow> bool" where
  "isinstance_InstrumentedList (PyInstrumentedList xs) = True"
| "isinstance_InstrumentedList v = False"

text \<open>Truth value of an object in a condition (\<^verbatim>\<open>if v:\<close>).\<close>

fun truthy :: "pyval \<Rightarrow> bool" where
  "truthy PyNone = False"
| "truthy (PyBool b) = b"
| "truthy (PyInt n) = (n \<noteq> 0)"
| "truthy (PyStr s) = (s \<noteq> [])"
| "truthy (PyDatetime t) = True"
| "truthy (PyUser u) = True"
| "truthy (PyList xs) = (xs \<noteq> [])"
| "truthy (PyInstrumentedList xs) = (xs \<noteq> [])"

text \<open>
  The integer a value stands for as a dictionary key: \<^verbatim>\<open>True == 1\<close> and
  \<^verbatim>\<open>hash(True) == hash(1)\<close>, so a \<^verbatim>\<open>bool\<close> key is the key 0 or 1.
\<close>

fun int_value :: "pyval \<Rightarrow> int option" where
  "int_value (PyInt n) = Some n"
| "int_value (PyBool b) = Some (if b then 1 else 0)"
| "int_value v = None"

text \<open>
  Exceptions.  The registry raises \<^verbatim>\<open>ValueError\<close> with two kinds of message (a field of
  the wrong class, named with the offending value; an unknown proposal id) and a plain
  \<^verbatim>\<open>Exception\<close> for a missing storage handle; the dispatcher of its overloaded
  function raises \<^verbatim>\<open>NotImplementedError\<close> for arguments that fit no signature.
  \<open>Raised\<close> is an exception coming out of a collaborator (storage, chat platform), named
  by its text.
\<close>

datatype error =
    ValueError_field string pyval
  | ValueError_proposal_id int
  | Exception_incorrect_db
  | NotImplementedError_no_signature
  | Raised string

datatype log_level = DEBUG | INFO | CRITICAL

section \<open>bot/utils/proposal\_utils.py\<close>

subsection \<open>Data\<close>

record voter =
  v_user_id :: int
  v_voting_message_id :: int
  v_value :: int

record proposal =
  message_id :: pyval
  channel_id :: pyval
  author_id :: pyval
  voting_message_id :: pyval
  description :: pyval
  not_financial :: pyval
  submitted_at :: pyval
  closed_at :: pyval
  bot_response_message_id :: pyval
  threshold_negative :: pyval
  finance_recipients :: pyval
  voters :: "voter list"

text \<open>What the module hands to its logger: the level of the call and the message.\<close>

datatype utils_message =
    Added_proposal pyval
  | Inserted_proposal_into_DB proposal
  | Unable_to_get int
  | Removing_data proposal
  | Unable_to_remove int

text \<open>
  The module's state: the dictionary \<^verbatim>\<open>proposals\<close> (an association list in insertion
  order; \<open>AList.update\<close> replaces the value of a key in place or appends a new key, as a
  Python \<^verbatim>\<open>dict\<close> does), the logger's records, and the rows of the durable store.
\<close>

record registry =
  proposals :: "(int \<times> proposal) list"
  stored_proposals :: "proposal list"
  utils_log :: "(log_level \<times> utils_message) list"

definition logger :: "log_level \<Rightarrow> utils_message \<Rightarrow> registry \<Rightarrow> registry" where
  "logger lvl m s = s\<lparr>utils_log := utils_log s @ [(lvl, m)]\<rparr>"

text \<open>
  Modelled from the spec: \<^verbatim>\<open>DBUtil\<close> (bot/utils/db\_utils.py) is not among the sources.
  \<^verbatim>\<open>add(entity)\<close> creates a row and \<^verbatim>\<open>delete(entity)\<close> removes it; either call may
  raise instead (\<open>fault\<close> is the exception it raises, if any) and then stores nothing.
\<close>

definition db_add :: "error option \<Rightarrow> proposal \<Rightarrow> registry \<Rightarrow> (error + unit) \<times> registry" where
  "db_add fault p s =
     (case fault of
        Some e \<Rightarrow> (Inl e, s)
      | None \<Rightarrow> (Inr (), s\<lparr>stored_proposals := stored_proposals s @ [p]\<rparr>))"

definition db_delete :: "error option \<Rightarrow> proposal \<Rightarrow> registry \<Rightarrow> (error + unit) \<times> registry" where
  "db_delete fault p s =
     (case fault of
        Some e \<Rightarrow> (Inl e, s)
      | None \<Rightarrow> (Inr (), s\<lparr>stored_proposals := removeAll p (stored_proposals s)\<rparr>))"

subsection \<open>find\_matching\_voter\<close>

text \<open>
  The function returns either one \<^verbatim>\<open>Voters\<close> object or a list of them; the two shapes
  of the result are the two constructors.
\<close>

datatype voter_result = Single_voter voter | Voter_list "voter list"

text \<open>The inner loop over \<^verbatim>\<open>p.voters\<close>, appending to \<^verbatim>\<open>voters_found\<close>.\<close>

fun scan_voters :: "int \<Rightarrow> int \<Rightarrow> voter list \<Rightarrow> voter list \<Rightarrow> voter list" where
  "scan_voters user_id vm_id [] voters_found = voters_found"
| "scan_voters user_id vm_id (v # vs) voters_found =
     scan_voters user_id vm_id vs
       (if v_user_id v = user_id \<and> v_voting_message_id v = vm_id
        then voters_found @ [v] else voters_found)"

text \<open>
  The outer loop \<^verbatim>\<open>for id in proposals: p = proposals[id]\<close>: the keys in order, each
  looked up in the dictionary.
\<close>

fun scan_proposals ::
  "int \<Rightarrow> int \<Rightarrow> (int \<times> proposal) list \<Rightarrow> int list \<Rightarrow> voter list \<Rightarrow> voter list" where
  "scan_proposals user_id vm_id d [] voters_found = voters_found"
| "scan_proposals user_id vm_id d (k # ks) voters_found =
     scan_proposals user_id vm_id d ks
       (case map_of d k of
          Some p \<Rightarrow> scan_voters user_id vm_id (voters p) voters_found
        | None \<Rightarrow> voters_found)"

definition find_matching_voter :: "int \<Rightarrow> int \<Rightarrow> registry \<Rightarrow> voter_result" where
  "find_matching_voter user_id vm_id s =
     (let voters_found = scan_proposals user_id vm_id (proposals s) (map fst (proposals s)) []
      in if length voters_found = 1 then Single_voter (voters_found ! 0)
         else Voter_list voters_found)"

subsection \<open>get\_proposal, remove\_proposal\<close>

definition get_proposal :: "int \<Rightarrow> registry \<Rightarrow> (error + proposal) \<times> registry" where
  "get_proposal vm_id s =
     (case map_of (proposals s) vm_id of
        Some p \<Rightarrow> (Inr p, s)
      | None \<Rightarrow> (Inl (ValueError_proposal_id vm_id), logger CRITICAL (Unable_to_get vm_id) s))"

definition remove_proposal :: "error option \<Rightarrow> int \<Rightarrow> registry \<Rightarrow> (error + unit) \<times> registry" where
  "remove_proposal fault vm_id s =
     (case map_of (proposals s) vm_id of
        Some p \<Rightarrow>
          (let s1 = logger INFO (Removing_data p) s in
           case db_delete fault p s1 of
             (Inl e, s2) \<Rightarrow> (Inl e, s2)
           | (Inr u, s2) \<Rightarrow> (Inr (), s2\<lparr>proposals := AList.delete vm_id (proposals s2)\<rparr>))
      | None \<Rightarrow>
          (Inl (ValueError_proposal_id vm_id), logger CRITICAL (Unable_to_remove vm_id) s))"

subsection \<open>Validation\<close>

definition validate_grantless_proposal :: "proposal \<Rightarrow> error + unit" where
  "validate_grantless_proposal new_proposal =
     (if \<not> isinstance_int (message_id new_proposal)
        then Inl (ValueError_field ''message_id'' (message_id new_proposal))
      else if \<not> isinstance_int (channel_id new_proposal)
        then Inl (ValueError_field ''channel_id'' (channel_id new_proposal))
      else if \<not> isinstance_User_str_int (author_id new_proposal)
        then Inl (ValueError_field ''author'' (author_id new_proposal))
      else if \<not> isinstance_int (voting_message_id new_proposal)
        then Inl (ValueError_field ''voting_message_id'' (voting_message_id new_proposal))
      else if \<not> isinstance_str (description new_proposal)
        then Inl (ValueError_field ''description'' (description new_proposal))
      else if \<not> isinstance_bool (not_financial new_proposal)
        then Inl (ValueError_field ''not_financial'' (not_financial new_proposal))
      else if \<not> isinstance_datetime (submitted_at new_proposal)
        then Inl (ValueError_field ''submitted_at'' (submitted_at new_proposal))
      else if \<not> isinstance_datetime (closed_at new_proposal)
        then Inl (ValueError_field ''closed_at'' (closed_at new_proposal))
      else if \<not> isinstance_int (bot_response_message_id new_proposal)
        then Inl (ValueError_field ''bot_response_message_id'' (bot_response_message_id new_proposal))
      else if \<not> isinstance_int (threshold_negative new_proposal)
        then Inl (ValueError_field ''threshold'' (threshold_negative new_proposal))
      else Inr ())"

definition validate_proposal_with_grant :: "proposal \<Rightarrow> error + unit" where
  "validate_proposal_with_grant new_grant_proposal =
     (case validate_grantless_proposal new_grant_proposal of
        Inl e \<Rightarrow> Inl e
      | Inr u \<Rightarrow>
          if \<not> isinstance_InstrumentedList (finance_recipients new_grant_proposal)
          then Inl (ValueError_field ''finance_recipients'' (finance_recipients new_grant_proposal))
          else Inr ())"

subsection \<open>add\_proposal\<close>

text \<open>
  The one-argument overload.  The key of the new entry is the proposal's
  \<^verbatim>\<open>voting_message_id\<close>; validation has let through only an \<^verbatim>\<open>int\<close> there, and a value
  of any other class has already left with the \<^verbatim>\<open>ValueError\<close> of the validation, which is
  what the last branch repeats.
\<close>

definition add_proposal :: "proposal \<Rightarrow> registry \<Rightarrow> (error + unit) \<times> registry" where
  "add_proposal new_proposal s =
     (case (if truthy (not_financial new_proposal)
            then validate_grantless_proposal new_proposal
            else validate_proposal_with_grant new_proposal) of
        Inl e \<Rightarrow> (Inl e, s)
      | Inr u \<Rightarrow>
          (case int_value (voting_message_id new_proposal) of
             Some k \<Rightarrow>
               (Inr (),
                logger INFO (Added_proposal (voting_message_id new_proposal))
                  (s\<lparr>proposals := AList.update k new_proposal (proposals s)\<rparr>))
           | None \<Rightarrow>
               (Inl (ValueError_field ''voting_message_id'' (voting_message_id new_proposal)), s)))"

text \<open>
  The second argument of a call \<^verbatim>\<open>add_proposal(new_proposal, db)\<close>: an instance of
  \<^verbatim>\<open>DBUtil\<close> or of a subclass of it, or an object of any other class (\<^verbatim>\<open>None\<close>,
  \<^verbatim>\<open>0\<close>).  The class \<^verbatim>\<open>DBUtil\<close> is not among the sources, so the truth value of an
  instance in \<^verbatim>\<open>if db:\<close> is a parameter of the instance: it is true unless the class of
  the instance defines \<^verbatim>\<open>__bool__\<close> or \<^verbatim>\<open>__len__\<close>.
\<close>

datatype db_handle = DBUtil_instance bool | Other_object pyval

fun handle_truthy :: "db_handle \<Rightarrow> bool" where
  "handle_truthy (DBUtil_instance t) = t"
| "handle_truthy (Other_object v) = truthy v"

text \<open>
  The two-argument overload, \<^verbatim>\<open>@dispatch(Proposals, DBUtil)\<close>.  The dispatcher looks at
  the classes of the arguments first: for a second argument that is no \<^verbatim>\<open>DBUtil\<close> it
  finds no signature and raises \<^verbatim>\<open>NotImplementedError\<close>, and the body does not run.
  \<open>fault\<close> is the exception of \<^verbatim>\<open>db.add\<close>, if it raises.
\<close>

definition add_proposal_db ::
  "db_handle \<Rightarrow> error option \<Rightarrow> proposal \<Rightarrow> registry \<Rightarrow> (error + unit) \<times> registry" where
  "add_proposal_db db fault new_proposal s =
     (case db of
        Other_object v \<Rightarrow> (Inl NotImplementedError_no_signature, s)
      | DBUtil_instance db_truthy \<Rightarrow>
          (case add_proposal new_proposal s of
             (Inl e, s1) \<Rightarrow> (Inl e, s1)
           | (Inr u, s1) \<Rightarrow>
               if db_truthy then
                 (case db_add fault new_proposal s1 of
                    (Inl e, s2) \<Rightarrow> (Inl e, s2)
                  | (Inr u', s2) \<Rightarrow>
                      (Inr (), logger INFO (Inserted_proposal_into_DB new_proposal) s2))
               else (Inl Exception_incorrect_db, s1)))"

subsection \<open>The specification's notions\<close>

text \<open>
  The spec's words for \<^verbatim>\<open>find_matching_voter\<close>: the voters, across all registered
  proposals, that match both identifiers.
\<close>

definition spec_matching_voters :: "int \<Rightarrow> int \<Rightarrow> registry \<Rightarrow> voter list" where
  "spec_matching_voters user_id vm_id s =
     filter (\<lambda>v. v_user_id v = user_id \<and> v_voting_message_id v = vm_id)
       (concat (map (\<lambda>kp. voters (snd kp)) (proposals s)))"

text \<open>
  The spec's words for the insert: every field but the recipients collection is of its
  required class.
\<close>

definition other_fields_well_typed :: "proposal \<Rightarrow> bool" where
  "other_fields_well_typed p \<longleftrightarrow>
     isinstance_int (message_id p) \<and> isinstance_int (channel_id p) \<and>
     isinstance_User_str_int (author_id p) \<and> isinstance_int (voting_message_id p) \<and>
     isinstance_str (description p) \<and> isinstance_bool (not_financial p) \<and>
     isinstance_datetime (submitted_at p) \<and> isinstance_datetime (closed_at p) \<and>
     isinstance_int (bot_response_message_id p) \<and> isinstance_int (threshold_negative p)"

subsection \<open>Example data\<close>

definition voter_a :: voter where
  "voter_a = \<lparr>v_user_id = 7, v_voting_message_id = 1001, v_value = 1\<rparr>"

definition voter_b :: voter where
  "voter_b = \<lparr>v_user_id = 8, v_voting_message_id = 1001, v_value = 0\<rparr>"

definition proposal_a :: proposal where
  "proposal_a =
     \<lparr>message_id = PyInt 1000, channel_id = PyInt 5, author_id = PyStr ''<@42>'',
      voting_message_id = PyInt 1001, description = PyStr ''new logo'',
      not_financial = PyBool True, submitted_at = PyDatetime 10, closed_at = PyDatetime 20,
      bot_response_message_id = PyInt 1002, threshold_negative = PyInt 3,
      finance_recipients = PyNone, voters = [voter_a, voter_b]\<rparr>"

definition empty_registry :: registry where
  "empty_registry = \<lparr>proposals = [], stored_proposals = [], utils_log = []\<rparr>"

definition registry_a :: registry where
  "registry_a = \<lparr>proposals = [(1001, proposal_a)], stored_proposals = [proposal_a], utils_log = []\<rparr>"

definition proposal_b :: proposal where
  "proposal_b = proposal_a\<lparr>description := PyStr ''new banner'', not_financial := PyBool False,
     finance_recipients := PyInstrumentedList [PyStr ''<@77>''], voters := [voter_a]\<rparr>"

definition registry_ab :: registry where
  "registry_ab = \<lparr>proposals = [(1001, proposal_a), (2002, proposal_b\<lparr>voting_message_id := PyInt 2002\<rparr>)],
     stored_proposals = [], utils_log = []\<rparr>"

section \<open>bot/transact.py\<close>

subsection \<open>Data\<close>

text \<open>
  The reactions and reply texts are constants of bot/config/const.py, which is not among
  the sources: each is a symbol named after its constant (the two texts built in place are
  named after their wording).
\<close>

datatype reaction = REACTION_ON_TRANSACTION_FAILED | REACTION_ON_TRANSACTION_SUCCEED

datatype reply =
    FREE_FUNDING_PAUSED_RESPONSE
  | FREE_FUNDING_PAUSED_RECOVERY_RESPONSE
  | ERROR_MESSAGE_INVALID_ROLE
  | ERROR_MESSAGE_FREE_FUNDING_INVALID_COMMAND_FORMAT
  | An_unexpected_error_occurred

datatype notice = Could_not_apply_grant

record message =
  msg_id :: int
  msg_content :: string
  msg_mentions :: "string list"
  msg_jump_url :: string

text \<open>\<^verbatim>\<open>ctx\<close>: the triggering message, its author's mention and its channel, if any.\<close>

record ctx =
  ctx_message :: message
  ctx_author_mention :: string
  ctx_channel_id :: "int option"

text \<open>
  A \<^verbatim>\<open>FreeFundingTransaction\<close> row.  Amounts and balances are of a type \<open>'n\<close> of numbers
  with the program's own \<open>*\<close> and \<open>-\<close> (the command handler passes a Python \<^verbatim>\<open>float\<close>),
  of which nothing is assumed.
\<close>

record 'n free_funding_transaction =
  tx_author :: string
  tx_mentions :: string
  tx_amount :: 'n
  tx_description :: string
  tx_submitted_at :: int

text \<open>The arguments that fill \<^verbatim>\<open>GRANT_COMMAND_FREE_FUNDING_MESSAGE\<close>.\<close>

record grant_message =
  gm_mentions :: string
  gm_amount :: string
  gm_description :: string
  gm_author :: string
  gm_balance :: string
  gm_tips_url :: string

datatype 'n transact_message =
    Transaction_received string
  | Rejecting_stopcock_file string
  | Rejecting_recovery_in_progress string
  | Unauthorized_user int
  | Invalid_command_format int string
  | Added_free_funding_balance string
  | Error_sending_grant_message int
  | Successfully_sent_free_funding string 'n 'n "string list" int
  | Unable_to_reply_in_the_chat
  | Unexpected_error "int option" int string

text \<open>
  The state the module works on.  \<open>balances\<close> are the \<^verbatim>\<open>FreeFundingBalance\<close> objects
  of the storage session by author, \<open>history\<close> the transaction rows, \<open>recovery\<close> the
  storage's maintenance flag; \<open>reactions\<close> and \<open>replies\<close> are what the triggering message
  has received, \<open>channel_notices\<close> what was sent to its channel, \<open>grant_channel\<close> the
  messages of the grant channel, each with whether its embeds are suppressed;
  \<open>balance_inquiries\<close> are the authors handed to the balance display.
\<close>

record 'n world =
  balances :: "(string \<times> 'n) list"
  history :: "'n free_funding_transaction list"
  recovery :: bool
  reactions :: "reaction list"
  replies :: "reply list"
  channel_notices :: "notice list"
  grant_channel :: "(grant_message \<times> bool) list"
  balance_inquiries :: "string list"
  transact_log :: "(log_level \<times> 'n transact_message) list"

text \<open>The calls into collaborators, each of which may raise.\<close>

datatype call_site =
    Fetch_message
  | Is_recovery
  | Validate_roles
  | Reply
  | Add_reaction
  | Send_free_funding_balance
  | Get_user_free_funding_balance
  | Db_add
  | Validate_free_transaction
  | Db_save
  | Grant_channel_send
  | Grant_message_edit
  | Channel_send_notice
  | Add_free_transactions_history_item
  | Reply_unexpected_error

text \<open>
  What one run meets outside the module: \<open>raises\<close> gives the exception of a call, if it
  raises; the other fields are the answers of collaborators and the constants and helpers
  of modules that are not among the sources (\<^verbatim>\<open>validate_roles\<close>,
  \<^verbatim>\<open>validate_free_transaction\<close>, \<^verbatim>\<open>get_amount_to_print\<close>, the season limit, the
  column separator), Python's \<^verbatim>\<open>re.search\<close> with the command pattern (its three
  groups on a match), \<^verbatim>\<open>float\<close>, the conversion of \<^verbatim>\<open>len(mentions)\<close> to a number of
  the amount's type, and the clock.
\<close>

record 'n env =
  raises :: "call_site \<Rightarrow> error option"
  stop_file_exists :: bool
  fetch_message :: "int \<Rightarrow> message"
  validate_roles :: "string \<Rightarrow> bool"
  validate_free_transaction ::
    "message \<Rightarrow> string \<Rightarrow> 'n \<Rightarrow> string list \<Rightarrow> 'n \<Rightarrow> string \<Rightarrow> bool"
  grant_channel_found :: bool
  re_search :: "string \<Rightarrow> (string \<times> string \<times> string) option"
  py_float :: "string \<Rightarrow> error + 'n"
  number_of_len :: "nat \<Rightarrow> 'n"
  FREE_FUNDING_LIMIT_PERSON_PER_SEASON :: 'n
  FREE_FUNDING_MENTIONS_COLUMN_SEPARATOR :: string
  get_amount_to_print :: "'n \<Rightarrow> string"
  datetime_now :: int

subsection \<open>Sequencing with exceptions\<close>

text \<open>
  A statement takes the state and returns its value or the exception it raised, with the
  state it left behind.
\<close>

type_synonym ('a, 's) stmt = "'s \<Rightarrow> (error + 'a) \<times> 's"

definition return :: "'a \<Rightarrow> ('a, 's) stmt" where
  "return x s = (Inr x, s)"

definition raise :: "error \<Rightarrow> ('a, 's) stmt" where
  "raise e s = (Inl e, s)"

definition and_then :: "('a, 's) stmt \<Rightarrow> ('a \<Rightarrow> ('b, 's) stmt) \<Rightarrow> ('b, 's) stmt" where
  "and_then m f s = (case m s of (Inl e, s') \<Rightarrow> (Inl e, s') | (Inr x, s') \<Rightarrow> f x s')"

text \<open>\<^verbatim>\<open>try: m except Exception as e: h\<close>\<close>

definition try_except :: "('a, 's) stmt \<Rightarrow> (error \<Rightarrow> ('a, 's) stmt) \<Rightarrow> ('a, 's) stmt" where
  "try_except m h s = (case m s of (Inl e, s') \<Rightarrow> h e s' | (Inr x, s') \<Rightarrow> (Inr x, s'))"

text \<open>A call into a collaborator: it raises, or it returns \<open>x\<close> and has the effect \<open>f\<close>.\<close>

definition external :: "'n env \<Rightarrow> call_site \<Rightarrow> 'a \<Rightarrow> ('n world \<Rightarrow> 'n world) \<Rightarrow> ('a, 'n world) stmt" where
  "external env c x f w = (case raises env c of Some e \<Rightarrow> (Inl e, w) | None \<Rightarrow> (Inr x, f w))"

definition log_call :: "log_level \<Rightarrow> 'n transact_message \<Rightarrow> (unit, 'n world) stmt" where
  "log_call lvl m w = (Inr (), w\<lparr>transact_log := transact_log w @ [(lvl, m)]\<rparr>)"

subsection \<open>Collaborators\<close>

text \<open>\<^verbatim>\<open>ctx.message.add_reaction(r)\<close>, \<^verbatim>\<open>original_message.reply(t)\<close>\<close>

definition add_reaction :: "'n env \<Rightarrow> reaction \<Rightarrow> (unit, 'n world) stmt" where
  "add_reaction env r = external env Add_reaction () (\<lambda>w. w\<lparr>reactions := reactions w @ [r]\<rparr>)"

definition reply_call :: "'n env \<Rightarrow> reply \<Rightarrow> (unit, 'n world) stmt" where
  "reply_call env t = external env Reply () (\<lambda>w. w\<lparr>replies := replies w @ [t]\<rparr>)"

text \<open>
  Modelled from the spec: the persistence collaborator \<^verbatim>\<open>DBUtil\<close> (bot/utils/db\_utils.py
  is not among the sources).  \<^verbatim>\<open>get_balance(owner)\<close> returns the owner's balance record
  or nothing, \<^verbatim>\<open>add(entity)\<close> creates the record, \<^verbatim>\<open>save()\<close> persists the session,
  \<^verbatim>\<open>add_history_item(record)\<close> appends to the history, \<^verbatim>\<open>is_recovery()\<close> reads the
  maintenance flag.
\<close>

definition get_user_free_funding_balance :: "'n env \<Rightarrow> string \<Rightarrow> ('n option, 'n world) stmt" where
  "get_user_free_funding_balance env author w =
     external env Get_user_free_funding_balance (map_of (balances w) author) (\<lambda>w. w) w"

definition db_add_balance :: "'n env \<Rightarrow> string \<Rightarrow> 'n \<Rightarrow> (unit, 'n world) stmt" where
  "db_add_balance env author b =
     external env Db_add () (\<lambda>w. w\<lparr>balances := AList.update author b (balances w)\<rparr>)"

definition db_save :: "'n env \<Rightarrow> (unit, 'n world) stmt" where
  "db_save env = external env Db_save () (\<lambda>w. w)"

definition add_free_transactions_history_item ::
  "'n env \<Rightarrow> 'n free_funding_transaction \<Rightarrow> (unit, 'n world) stmt" where
  "add_free_transactions_history_item env item =
     external env Add_free_transactions_history_item () (\<lambda>w. w\<lparr>history := history w @ [item]\<rparr>)"

definition is_recovery :: "'n env \<Rightarrow> (bool, 'n world) stmt" where
  "is_recovery env w = external env Is_recovery (recovery w) (\<lambda>w. w) w"

text \<open>
  The grant channel: \<^verbatim>\<open>client.get_channel\<close> gives \<^verbatim>\<open>None\<close> for a channel it does not
  find, on which \<^verbatim>\<open>channel.send\<close> is an \<^verbatim>\<open>AttributeError\<close>; \<^verbatim>\<open>send\<close> posts the message
  and returns it, \<^verbatim>\<open>message.edit(suppress=True)\<close> suppresses the embeds of that message,
  the last one of the channel.
\<close>

definition grant_channel_send :: "'n env \<Rightarrow> grant_message \<Rightarrow> (grant_message, 'n world) stmt" where
  "grant_channel_send env m =
     (if grant_channel_found env
      then external env Grant_channel_send m (\<lambda>w. w\<lparr>grant_channel := grant_channel w @ [(m, False)]\<rparr>)
      else raise (Raised ''AttributeError''))"

definition grant_message_edit :: "'n env \<Rightarrow> grant_message \<Rightarrow> (unit, 'n world) stmt" where
  "grant_message_edit env m =
     external env Grant_message_edit ()
       (\<lambda>w. w\<lparr>grant_channel := butlast (grant_channel w) @ [(m, True)]\<rparr>)"

definition channel_send_notice :: "'n env \<Rightarrow> notice \<Rightarrow> (unit, 'n world) stmt" where
  "channel_send_notice env n =
     external env Channel_send_notice () (\<lambda>w. w\<lparr>channel_notices := channel_notices w @ [n]\<rparr>)"

text \<open>
  Modelled from the spec: the validator (bot/utils/validation.py is not among the
  sources) is a stateless check returning a success signal.
\<close>

definition validate_free_transaction_call ::
  "'n env \<Rightarrow> message \<Rightarrow> string \<Rightarrow> 'n \<Rightarrow> string list \<Rightarrow> 'n \<Rightarrow> string \<Rightarrow> (bool, 'n world) stmt" where
  "validate_free_transaction_call env original_message author author_balance mentions amount descr =
     external env Validate_free_transaction
       (validate_free_transaction env original_message author author_balance mentions amount descr)
       (\<lambda>w. w)"

definition validate_roles_call :: "'n env \<Rightarrow> string \<Rightarrow> (bool, 'n world) stmt" where
  "validate_roles_call env author = external env Validate_roles (validate_roles env author) (\<lambda>w. w)"

text \<open>
  Modelled from the spec: the balance display (bot/help.py is not among the sources), to
  which a command without arguments is delegated.
\<close>

definition send_free_funding_balance :: "'n env \<Rightarrow> ctx \<Rightarrow> (unit, 'n world) stmt" where
  "send_free_funding_balance env ctx =
     external env Send_free_funding_balance ()
       (\<lambda>w. w\<lparr>balance_inquiries := balance_inquiries w @ [ctx_author_mention ctx]\<rparr>)"

subsection \<open>Strings\<close>

text \<open>\<^verbatim>\<open>sep.join(xs)\<close>\<close>

fun join :: "string \<Rightarrow> string list \<Rightarrow> string" where
  "join sep [] = []"
| "join sep [x] = x"
| "join sep (x # y # ys) = x @ sep @ join sep (y # ys)"

text \<open>
  \<^verbatim>\<open>s.split()\<close>: the maximal runs of characters that are not whitespace.  A \<open>char\<close> is
  a code point below 256, and \<^verbatim>\<open>str.isspace\<close> holds of these: tab to carriage return, the
  four separators from U+001C, the space, and in the upper half next line (U+0085) and
  no-break space (U+00A0).  The spaces from U+1680 on are beyond the type; a text that
  holds one is not a \<open>string\<close>.
\<close>

definition isspace :: "char \<Rightarrow> bool" where
  "isspace c \<longleftrightarrow>
     c \<in> set [CHR 0x09, CHR 0x0A, CHR 0x0B, CHR 0x0C, CHR 0x0D,
              CHR 0x1C, CHR 0x1D, CHR 0x1E, CHR 0x1F, CHR 0x20, CHR 0x85, CHR 0xA0]"

fun split_from :: "string \<Rightarrow> string \<Rightarrow> string list" where
  "split_from word [] = (if word = [] then [] else [word])"
| "split_from word (c # cs) =
     (if isspace c then (if word = [] then split_from [] cs else word # split_from [] cs)
      else split_from (word @ [c]) cs)"

definition str_split :: "string \<Rightarrow> string list" where
  "str_split s = split_from [] s"

subsection \<open>send\_transaction\<close>

definition send_transaction ::
  "'n::{times,minus} env \<Rightarrow> ctx \<Rightarrow> message \<Rightarrow> string list \<Rightarrow> 'n \<Rightarrow> string
     \<Rightarrow> (unit, 'n world) stmt" where
  "send_transaction env ctx original_message mentions amount descr =
     (let author_mention = ctx_author_mention ctx in
      and_then (get_user_free_funding_balance env author_mention) (\<lambda>found.
      and_then
        (case found of
           Some b \<Rightarrow> return b
         | None \<Rightarrow>
             and_then (log_call DEBUG (Added_free_funding_balance author_mention)) (\<lambda>_.
             and_then (db_add_balance env author_mention (FREE_FUNDING_LIMIT_PERSON_PER_SEASON env)) (\<lambda>_.
             return (FREE_FUNDING_LIMIT_PERSON_PER_SEASON env)))) (\<lambda>author_balance.
      and_then
        (validate_free_transaction_call env original_message author_mention author_balance
           mentions amount descr) (\<lambda>valid.
      if \<not> valid then add_reaction env REACTION_ON_TRANSACTION_FAILED
      else
        (let new_balance = author_balance - amount * number_of_len env (length mentions) in
         and_then (\<lambda>w. (Inr (), w\<lparr>balances := AList.update author_mention new_balance (balances w)\<rparr>)) (\<lambda>_.
         and_then (db_save env) (\<lambda>_.
         let grant_message =
               \<lparr>gm_mentions = join [CHR 0x20] mentions,
                gm_amount = get_amount_to_print env amount,
                gm_description = descr,
                gm_author = author_mention,
                gm_balance = get_amount_to_print env new_balance,
                gm_tips_url = msg_jump_url original_message\<rparr> in
         and_then
           (try_except
              (and_then (grant_channel_send env grant_message) (\<lambda>message. grant_message_edit env message))
              (\<lambda>e.
                 and_then (channel_send_notice env Could_not_apply_grant) (\<lambda>_.
                 and_then (log_call CRITICAL (Error_sending_grant_message (msg_id original_message))) (\<lambda>_.
                 raise e)))) (\<lambda>_.
         and_then
           (add_free_transactions_history_item env
              \<lparr>tx_author = author_mention,
               tx_mentions = join (FREE_FUNDING_MENTIONS_COLUMN_SEPARATOR env) mentions,
               tx_amount = amount * number_of_len env (length mentions),
               tx_description = descr,
               tx_submitted_at = datetime_now env\<rparr>) (\<lambda>_.
         and_then (add_reaction env REACTION_ON_TRANSACTION_SUCCEED) (\<lambda>_.
         log_call INFO
           (Successfully_sent_free_funding author_mention new_balance
              (amount * number_of_len env (length mentions)) mentions (msg_id original_message))))))))))))"

subsection \<open>free\_funding\_transact\_command\<close>

definition invalid_command_format :: "'n env \<Rightarrow> message \<Rightarrow> (unit, 'n world) stmt" where
  "invalid_command_format env original_message =
     and_then (reply_call env ERROR_MESSAGE_FREE_FUNDING_INVALID_COMMAND_FORMAT) (\<lambda>_.
     and_then (add_reaction env REACTION_ON_TRANSACTION_FAILED) (\<lambda>_.
     log_call INFO (Invalid_command_format (msg_id original_message) (msg_content original_message))))"

definition command_body ::
  "'n::{times,minus} env \<Rightarrow> ctx \<Rightarrow> string list \<Rightarrow> (unit, 'n world) stmt" where
  "command_body env ctx args =
     (let message_content = msg_content (ctx_message ctx) in
      and_then (log_call DEBUG (Transaction_received message_content)) (\<lambda>_.
      and_then (external env Fetch_message (fetch_message env (msg_id (ctx_message ctx))) (\<lambda>w. w))
        (\<lambda>original_message.
      if stop_file_exists env then
        and_then (reply_call env FREE_FUNDING_PAUSED_RESPONSE) (\<lambda>_.
        and_then (add_reaction env REACTION_ON_TRANSACTION_FAILED) (\<lambda>_.
        log_call INFO (Rejecting_stopcock_file (ctx_author_mention ctx))))
      else
      and_then (is_recovery env) (\<lambda>recovering.
      if recovering then
        and_then (reply_call env FREE_FUNDING_PAUSED_RECOVERY_RESPONSE) (\<lambda>_.
        and_then (add_reaction env REACTION_ON_TRANSACTION_FAILED) (\<lambda>_.
        log_call INFO (Rejecting_recovery_in_progress (ctx_author_mention ctx))))
      else
      and_then (validate_roles_call env (ctx_author_mention ctx)) (\<lambda>authorised.
      if \<not> authorised then
        and_then (reply_call env ERROR_MESSAGE_INVALID_ROLE) (\<lambda>_.
        and_then (add_reaction env REACTION_ON_TRANSACTION_FAILED) (\<lambda>_.
        log_call INFO (Unauthorized_user (msg_id original_message))))
      else if length args = 0 then send_free_funding_balance env ctx
      else if length args < 3 then invalid_command_format env original_message
      else if msg_mentions original_message \<noteq> [] then
        (case re_search env message_content of
           None \<Rightarrow> invalid_command_format env original_message
         | Some (group1, group2, group3) \<Rightarrow>
             (let mentions = str_split group1 in
              and_then (\<lambda>w. (py_float env group2, w)) (\<lambda>amount.
              send_transaction env ctx original_message mentions amount group3)))
      else return ())))))"

text \<open>
  The command: the body inside \<^verbatim>\<open>try\<close>, and the handler of \<^verbatim>\<open>except Exception\<close>,
  which tries a reply, logs at critical severity when that reply raises, and logs the
  error at critical severity in either case.
\<close>

definition free_funding_transact_command ::
  "'n::{times,minus} env \<Rightarrow> ctx \<Rightarrow> string list \<Rightarrow> (unit, 'n world) stmt" where
  "free_funding_transact_command env ctx args =
     try_except (command_body env ctx args)
       (\<lambda>e.
          and_then
            (try_except
               (external env Reply_unexpected_error ()
                  (\<lambda>w. w\<lparr>replies := replies w @ [An_unexpected_error_occurred]\<rparr>))
               (\<lambda>e'. log_call CRITICAL Unable_to_reply_in_the_chat)) (\<lambda>_.
          log_call CRITICAL
            (Unexpected_error (ctx_channel_id ctx) (msg_id (ctx_message ctx)) (ctx_author_mention ctx))))"

subsection \<open>The specification's notions and example data\<close>

text \<open>
  The balance a run starts from: the author's record, or the season limit with which a
  record is created for an author who has none.
\<close>

definition prior_balance :: "'n env \<Rightarrow> string \<Rightarrow> 'n world \<Rightarrow> 'n" where
  "prior_balance env author w =
     (case map_of (balances w) author of
        Some b \<Rightarrow> b
      | None \<Rightarrow> FREE_FUNDING_LIMIT_PERSON_PER_SEASON env)"

text \<open>
  Modelled from the spec: a validator in the sense of section 4.2 (valid recipients,
  non-empty description, sufficient balance), for the examples.
\<close>

definition example_validator ::
  "message \<Rightarrow> string \<Rightarrow> int \<Rightarrow> string list \<Rightarrow> int \<Rightarrow> string \<Rightarrow> bool" where
  "example_validator original_message author author_balance mentions amount descr \<longleftrightarrow>
     mentions \<noteq> [] \<and> descr \<noteq> [] \<and> 0 < amount \<and> amount * int (length mentions) \<le> author_balance"

definition message_tip :: message where
  "message_tip = \<lparr>msg_id = 1, msg_content = ''!tip <@2> 20 thanks'', msg_mentions = [''<@2>''],
     msg_jump_url = ''https://discord.test/1''\<rparr>"

definition message_bad_amount :: message where
  "message_bad_amount = \<lparr>msg_id = 2, msg_content = ''!tip <@2> twenty thanks'',
     msg_mentions = [''<@2>''], msg_jump_url = ''https://discord.test/2''\<rparr>"

definition message_no_mention :: message where
  "message_no_mention = \<lparr>msg_id = 3, msg_content = ''!tip 123 20 thanks'', msg_mentions = [],
     msg_jump_url = ''https://discord.test/3''\<rparr>"

definition ctx_of :: "message \<Rightarrow> ctx" where
  "ctx_of m = \<lparr>ctx_message = m, ctx_author_mention = ''<@1>'', ctx_channel_id = Some 9\<rparr>"

definition example_env :: "int env" where
  "example_env =
     \<lparr>raises = (\<lambda>c. None),
      stop_file_exists = False,
      fetch_message = (\<lambda>i. if i = 1 then message_tip else if i = 2 then message_bad_amount
                            else message_no_mention),
      validate_roles = (\<lambda>author. True),
      validate_free_transaction = example_validator,
      grant_channel_found = True,
      re_search = (\<lambda>s. if s = ''!tip <@2> 20 thanks'' then Some (''<@2> '', ''20'', ''thanks'')
                        else None),
      py_float = (\<lambda>s. if s = ''20'' then Inr 20 else Inl (Raised ''ValueError'')),
      number_of_len = int,
      FREE_FUNDING_LIMIT_PERSON_PER_SEASON = 100,
      FREE_FUNDING_MENTIONS_COLUMN_SEPARATOR = '','',
      get_amount_to_print = (\<lambda>n. if n = 20 then ''20'' else if n = 80 then ''80'' else ''?''),
      datetime_now = 1700000000\<rparr>"

text \<open>The chat platform is unreachable: every send to a channel raises.\<close>

definition outage_env :: "int env" where
  "outage_env = example_env\<lparr>raises :=
     (\<lambda>c. if c = Grant_channel_send then Some (Raised ''grant channel unreachable'')
          else if c = Channel_send_notice then Some (Raised ''channel unreachable'')
          else None)\<rparr>"

text \<open>The stop file exists: new transactions are paused.\<close>

definition paused_env :: "int env" where
  "paused_env = example_env\<lparr>stop_file_exists := True\<rparr>"

definition world_of :: "(string \<times> int) list \<Rightarrow> int world" where
  "world_of bs = \<lparr>balances = bs, history = [], recovery = False, reactions = [], replies = [],
     channel_notices = [], grant_channel = [], balance_inquiries = [], transact_log = []\<rparr>"

text \<open>
  The exception with which the grant notification (\<^verbatim>\<open>get_channel\<close>, \<^verbatim>\<open>send\<close>,
  \<^verbatim>\<open>edit\<close>) leaves its \<^verbatim>\<open>try\<close> block, if it raises.
\<close>

definition grant_notification_raises :: "'n env \<Rightarrow> error option" where
  "grant_notification_raises env =
     (if \<not> grant_channel_found env then Some (Raised ''AttributeError'')
      else case raises env Grant_channel_send of
             Some e \<Rightarrow> Some e
           | None \<Rightarrow> raises env Grant_message_edit)"

section \<open>Properties of the proposal registry\<close>

lemma map_of_update_same: "map_of (AList.update k v al) k = Some v"
  by (simp add: update_conv')

lemma map_of_delete_same: "map_of (AList.delete k al) k = None"
  by (simp add: delete_conv')

lemma scan_voters_filter:
  "scan_voters u m vs acc = acc @ filter (\<lambda>v. v_user_id v = u \<and> v_voting_message_id v = m) vs"
  by (induction vs arbitrary: acc) auto

lemma scan_proposals_concat:
  "scan_proposals u m d ks acc =
     acc @ concat (map (\<lambda>k. case map_of d k of
                          Some p \<Rightarrow> filter (\<lambda>v. v_user_id v = u \<and> v_voting_message_id v = m) (voters p)
                        | None \<Rightarrow> []) ks)"
  by (induction ks arbitrary: acc) (auto simp: scan_voters_filter split: option.splits)

lemma scan_proposals_spec:
  assumes "distinct (map fst (proposals s))"
  shows "scan_proposals u m (proposals s) (map fst (proposals s)) [] = spec_matching_voters u m s"
proof -
  have own: "map_of (proposals s) (fst kp) = Some (snd kp)" if "kp \<in> set (proposals s)" for kp
    using assms that by (cases kp) simp
  have "map (\<lambda>k. case map_of (proposals s) k of
                Some p \<Rightarrow> filter (\<lambda>v. v_user_id v = u \<and> v_voting_message_id v = m) (voters p)
              | None \<Rightarrow> []) (map fst (proposals s))
        = map (\<lambda>kp. filter (\<lambda>v. v_user_id v = u \<and> v_voting_message_id v = m) (voters (snd kp)))
            (proposals s)"
    by (simp add: own)
  then have "scan_proposals u m (proposals s) (map fst (proposals s)) []
        = concat (map (\<lambda>kp. filter (\<lambda>v. v_user_id v = u \<and> v_voting_message_id v = m) (voters (snd kp)))
            (proposals s))"
    by (simp only: scan_proposals_concat append_Nil)
  also have "\<dots> = spec_matching_voters u m s"
    by (simp only: spec_matching_voters_def filter_concat map_map comp_def)
  finally show ?thesis .
qed

text \<open>
  C8: \<^verbatim>\<open>find_matching_voter\<close> returns the one matching voter itself, not a list, when
  exactly one voter across all registered proposals matches both identifiers; the empty
  list when none matches; and the list of all matches, of more than one element, when
  several match.  The registry is a dictionary: its keys are distinct.
\<close>

theorem find_matching_voter_cardinality:
  assumes "distinct (map fst (proposals s))"
  shows "(\<forall>v. spec_matching_voters u m s = [v] \<longrightarrow> find_matching_voter u m s = Single_voter v)
       \<and> (spec_matching_voters u m s = [] \<longrightarrow> find_matching_voter u m s = Voter_list [])
       \<and> (1 < length (spec_matching_voters u m s) \<longrightarrow>
            find_matching_voter u m s = Voter_list (spec_matching_voters u m s))"
  by (simp add: find_matching_voter_def scan_proposals_spec [OF assms])

lemma isinstance_int_value: "isinstance_int v \<Longrightarrow> \<exists>k. int_value v = Some k"
  by (cases v) simp_all

lemma grantless_voting_message_id:
  "validate_grantless_proposal p = Inr u \<Longrightarrow> isinstance_int (voting_message_id p)"
  by (simp add: validate_grantless_proposal_def split: if_splits)

lemma with_grant_voting_message_id:
  "validate_proposal_with_grant p = Inr u \<Longrightarrow> isinstance_int (voting_message_id p)"
  by (auto simp: validate_proposal_with_grant_def split: sum.splits if_splits
      dest: grantless_voting_message_id)

lemma grantless_well_typed:
  "validate_grantless_proposal p = Inr () \<longleftrightarrow> other_fields_well_typed p"
  by (simp add: validate_grantless_proposal_def other_fields_well_typed_def)

lemma grantless_error_is_field:
  "validate_grantless_proposal p = Inl e \<Longrightarrow> \<exists>f v. e = ValueError_field f v"
  by (auto simp: validate_grantless_proposal_def split: if_splits)

lemma grantless_ignores_recipients:
  "validate_grantless_proposal (p\<lparr>finance_recipients := r\<rparr>) = validate_grantless_proposal p"
  by (simp add: validate_grantless_proposal_def)

text \<open>What a successful \<open>add_proposal\<close> has done.\<close>

lemma add_proposal_Inr:
  assumes "add_proposal p s = (Inr u, s1)"
  shows "\<exists>k. int_value (voting_message_id p) = Some k
           \<and> s1 = logger INFO (Added_proposal (voting_message_id p))
                    (s\<lparr>proposals := AList.update k p (proposals s)\<rparr>)"
  using assms by (auto simp: add_proposal_def split: sum.splits option.splits if_splits)

lemma add_proposal_Inl:
  assumes "add_proposal p s = (Inl e, s1)"
  shows "s1 = s"
  using assms by (auto simp: add_proposal_def split: sum.splits option.splits if_splits)

lemma add_proposal_result_independent:
  "fst (add_proposal p s) = fst (add_proposal p t)"
  by (simp add: add_proposal_def split: sum.splits option.splits)

text \<open>
  The registry stays a dictionary: neither operation makes a key occur twice.
\<close>

lemma add_proposal_keys_distinct:
  assumes "distinct (map fst (proposals s))" and "add_proposal p s = (r, s')"
  shows "distinct (map fst (proposals s'))"
  using assms
  by (auto simp: add_proposal_def logger_def distinct_update split: sum.splits option.splits)

lemma remove_proposal_keys_distinct:
  assumes "distinct (map fst (proposals s))" and "remove_proposal fault k s = (r, s')"
  shows "distinct (map fst (proposals s'))"
  using assms
  by (cases fault)
    (auto simp: remove_proposal_def db_delete_def logger_def Let_def distinct_delete
      split: option.splits)

text \<open>
  C1: for an id absent from the registry, \<^verbatim>\<open>remove_proposal\<close> raises the not-found
  \<^verbatim>\<open>ValueError\<close>, logs it at critical severity and leaves registry and store as they
  were.  For an id that is present it deletes the proposal from the durable store first and
  removes the in-memory entry only once that delete has returned: when the delete raises,
  the exception leaves the function with the entry still in the registry.
\<close>

theorem remove_proposal_storage_first:
  "(map_of (proposals s) k = None \<longrightarrow>
      remove_proposal fault k s =
        (Inl (ValueError_proposal_id k),
         s\<lparr>utils_log := utils_log s @ [(CRITICAL, Unable_to_remove k)]\<rparr>))
   \<and> (\<forall>p. map_of (proposals s) k = Some p \<longrightarrow>
        remove_proposal None k s =
          (Inr (), s\<lparr>proposals := AList.delete k (proposals s),
                     stored_proposals := removeAll p (stored_proposals s),
                     utils_log := utils_log s @ [(INFO, Removing_data p)]\<rparr>)
        \<and> (\<forall>e. remove_proposal (Some e) k s =
               (Inl e, s\<lparr>utils_log := utils_log s @ [(INFO, Removing_data p)]\<rparr>)))"
  by (simp add: remove_proposal_def db_delete_def logger_def)

theorem remove_proposal_storage_first_witness:
  "map_of (proposals registry_a) 5 = None
   \<and> remove_proposal None 5 registry_a =
       (Inl (ValueError_proposal_id 5),
        registry_a\<lparr>utils_log := [(CRITICAL, Unable_to_remove 5)]\<rparr>)
   \<and> map_of (proposals registry_a) 1001 = Some proposal_a
   \<and> remove_proposal None 1001 registry_a =
       (Inr (), \<lparr>proposals = [], stored_proposals = [], utils_log = [(INFO, Removing_data proposal_a)]\<rparr>)
   \<and> remove_proposal (Some (Raised ''storage down'')) 1001 registry_a =
       (Inl (Raised ''storage down''),
        registry_a\<lparr>utils_log := [(INFO, Removing_data proposal_a)]\<rparr>)"
  using remove_proposal_storage_first [of registry_a 5 None]
    remove_proposal_storage_first [of registry_a 1001 None]
  by (simp add: registry_a_def)

text \<open>
  C5: after a successful \<^verbatim>\<open>add_proposal\<close> of \<open>p\<close>, \<^verbatim>\<open>get_proposal\<close> on the
  voting-message id of \<open>p\<close> returns \<open>p\<close> itself; and once \<^verbatim>\<open>remove_proposal\<close> has
  removed that id, \<^verbatim>\<open>get_proposal\<close> on it raises the not-found \<^verbatim>\<open>ValueError\<close>.
\<close>

theorem inserted_proposal_found_until_removed:
  assumes "add_proposal p s = (Inr (), s1)"
  shows "\<exists>k. int_value (voting_message_id p) = Some k
           \<and> get_proposal k s1 = (Inr p, s1)
           \<and> (\<forall>fault s2. remove_proposal fault k s1 = (Inr (), s2) \<longrightarrow>
                get_proposal k s2 =
                  (Inl (ValueError_proposal_id k), logger CRITICAL (Unable_to_get k) s2))"
proof -
  from add_proposal_Inr [OF assms] obtain k where
    k: "int_value (voting_message_id p) = Some k" and
    s1: "s1 = logger INFO (Added_proposal (voting_message_id p))
                (s\<lparr>proposals := AList.update k p (proposals s)\<rparr>)"
    by blast
  have found: "map_of (proposals s1) k = Some p"
    by (simp add: s1 logger_def map_of_update_same)
  then have get: "get_proposal k s1 = (Inr p, s1)"
    by (simp add: get_proposal_def)
  have gone: "get_proposal k s2 = (Inl (ValueError_proposal_id k), logger CRITICAL (Unable_to_get k) s2)"
    if "remove_proposal fault k s1 = (Inr (), s2)" for fault s2
  proof -
    from that found have "proposals s2 = AList.delete k (proposals s1)"
      by (cases fault) (auto simp: remove_proposal_def db_delete_def logger_def Let_def)
    then show ?thesis
      by (simp add: get_proposal_def map_of_delete_same)
  qed
  from k get gone show ?thesis by blast
qed

theorem inserted_proposal_found_until_removed_witness:
  "add_proposal proposal_a empty_registry = (Inr (), snd (add_proposal proposal_a empty_registry))
   \<and> remove_proposal None 1001 (snd (add_proposal proposal_a empty_registry))
       = (Inr (), snd (remove_proposal None 1001 (snd (add_proposal proposal_a empty_registry))))
   \<and> (\<exists>k. int_value (voting_message_id proposal_a) = Some k
         \<and> fst (get_proposal k (snd (add_proposal proposal_a empty_registry))) = Inr proposal_a
         \<and> fst (get_proposal k (snd (remove_proposal None k (snd (add_proposal proposal_a empty_registry)))))
             = Inl (ValueError_proposal_id k))"
proof -
  let ?s1 = "snd (add_proposal proposal_a empty_registry)"
  let ?s2 = "snd (remove_proposal None 1001 ?s1)"
  have a: "add_proposal proposal_a empty_registry = (Inr (), ?s1)"
    by (simp add: add_proposal_def validate_grantless_proposal_def proposal_a_def)
  have k: "int_value (voting_message_id proposal_a) = Some 1001"
    by (simp add: proposal_a_def)
  have r: "remove_proposal None 1001 ?s1 = (Inr (), ?s2)"
    by (simp add: remove_proposal_def db_delete_def logger_def add_proposal_def
        validate_grantless_proposal_def proposal_a_def empty_registry_def)
  from inserted_proposal_found_until_removed [OF a] k r
  have "fst (get_proposal 1001 ?s1) = Inr proposal_a
        \<and> fst (get_proposal 1001 ?s2) = Inl (ValueError_proposal_id 1001)"
    by (metis fst_conv option.inject)
  with a k r show ?thesis by blast
qed

text \<open>
  C10: \<^verbatim>\<open>add_proposal\<close> makes no duplicate check.  A proposal that it accepts into the
  empty registry it also accepts, without an error, into a registry that already has an
  entry under the same voting-message id, and the registry then maps that id to the new
  proposal, in the place of the old entry.
\<close>

theorem add_proposal_overwrites:
  assumes "map_of (proposals s) k = Some old"
    and "int_value (voting_message_id p) = Some k"
    and "fst (add_proposal p empty_registry) = Inr ()"
  shows "\<exists>s'. add_proposal p s = (Inr (), s') \<and> map_of (proposals s') k = Some p
           \<and> map fst (proposals s') = map fst (proposals s)"
proof -
  have "fst (add_proposal p s) = Inr ()"
    using assms(3) add_proposal_result_independent [of p s empty_registry] by simp
  then obtain s' where s': "add_proposal p s = (Inr (), s')"
    by (cases "add_proposal p s") simp
  from add_proposal_Inr [OF s'] assms(2)
  have eq: "s' = logger INFO (Added_proposal (voting_message_id p))
                   (s\<lparr>proposals := AList.update k p (proposals s)\<rparr>)"
    by auto
  have "k \<in> fst ` set (proposals s)"
    using assms(1) by (metis map_of_eq_None_iff option.distinct(1))
  then have "map fst (AList.update k p (proposals s)) = map fst (proposals s)"
    by (simp add: update_keys)
  with s' eq show ?thesis
    by (simp add: logger_def map_of_update_same)
qed

theorem add_proposal_overwrites_witness:
  "map_of (proposals registry_a) 1001 = Some proposal_a
   \<and> int_value (voting_message_id (proposal_a\<lparr>description := PyStr ''second''\<rparr>)) = Some 1001
   \<and> fst (add_proposal (proposal_a\<lparr>description := PyStr ''second''\<rparr>) empty_registry) = Inr ()
   \<and> (\<exists>s'. add_proposal (proposal_a\<lparr>description := PyStr ''second''\<rparr>) registry_a = (Inr (), s')
          \<and> map_of (proposals s') 1001 = Some (proposal_a\<lparr>description := PyStr ''second''\<rparr>)
          \<and> map fst (proposals s') = [1001])"
proof -
  let ?p = "proposal_a\<lparr>description := PyStr ''second''\<rparr>"
  have h1: "map_of (proposals registry_a) 1001 = Some proposal_a"
    by (simp add: registry_a_def)
  have h2: "int_value (voting_message_id ?p) = Some 1001"
    by (simp add: proposal_a_def)
  have h3: "fst (add_proposal ?p empty_registry) = Inr ()"
    by (simp add: add_proposal_def validate_grantless_proposal_def proposal_a_def)
  have "map fst (proposals registry_a) = [1001]"
    by (simp add: registry_a_def)
  with add_proposal_overwrites [OF h1 h2 h3] h1 h2 h3 show ?thesis
    by simp
qed

theorem find_matching_voter_cardinality_witness:
  "distinct (map fst (proposals registry_ab))
   \<and> spec_matching_voters 8 1001 registry_ab = [voter_b]
   \<and> find_matching_voter 8 1001 registry_ab = Single_voter voter_b
   \<and> spec_matching_voters 9 1001 registry_ab = []
   \<and> find_matching_voter 9 1001 registry_ab = Voter_list []
   \<and> 1 < length (spec_matching_voters 7 1001 registry_ab)
   \<and> find_matching_voter 7 1001 registry_ab = Voter_list [voter_a, voter_a]"
proof -
  have d: "distinct (map fst (proposals registry_ab))"
    by (simp add: registry_ab_def)
  have m1: "spec_matching_voters 8 1001 registry_ab = [voter_b]"
    by (simp add: spec_matching_voters_def registry_ab_def proposal_a_def proposal_b_def
        voter_a_def voter_b_def)
  have m0: "spec_matching_voters 9 1001 registry_ab = []"
    by (simp add: spec_matching_voters_def registry_ab_def proposal_a_def proposal_b_def
        voter_a_def voter_b_def)
  have m2: "spec_matching_voters 7 1001 registry_ab = [voter_a, voter_a]"
    by (simp add: spec_matching_voters_def registry_ab_def proposal_a_def proposal_b_def
        voter_a_def voter_b_def)
  from find_matching_voter_cardinality [OF d, of 8 1001]
    find_matching_voter_cardinality [OF d, of 9 1001]
    find_matching_voter_cardinality [OF d, of 7 1001] d m1 m0 m2
  show ?thesis by simp
qed

text \<open>
  C6: \<^verbatim>\<open>add_proposal\<close> on a financial proposal (\<^verbatim>\<open>not_financial\<close> false) whose
  \<^verbatim>\<open>finance_recipients\<close> is absent or not an \<^verbatim>\<open>InstrumentedList\<close> always raises the
  \<^verbatim>\<open>ValueError\<close> of the validation and stores nothing.  On a non-financial proposal the
  recipients are never looked at: the outcome is the same whatever the field holds, and
  with every other field of its required class the insert succeeds.
\<close>

theorem recipients_required_iff_financial:
  "(\<not> truthy (not_financial p) \<and> \<not> isinstance_InstrumentedList (finance_recipients p) \<longrightarrow>
      (\<exists>f v. add_proposal p s = (Inl (ValueError_field f v), s)))
   \<and> (truthy (not_financial p) \<longrightarrow>
        fst (add_proposal (p\<lparr>finance_recipients := r\<rparr>) s) = fst (add_proposal p s))
   \<and> (truthy (not_financial p) \<and> other_fields_well_typed p \<longrightarrow>
        (\<exists>k s'. add_proposal p s = (Inr (), s') \<and> int_value (voting_message_id p) = Some k
           \<and> map_of (proposals s') k = Some p))"
proof (intro conjI impI)
  assume a: "\<not> truthy (not_financial p) \<and> \<not> isinstance_InstrumentedList (finance_recipients p)"
  show "\<exists>f v. add_proposal p s = (Inl (ValueError_field f v), s)"
  proof (cases "validate_grantless_proposal p")
    case (Inl e)
    with grantless_error_is_field [OF Inl] a show ?thesis
      by (auto simp: add_proposal_def validate_proposal_with_grant_def)
  next
    case (Inr u)
    with a show ?thesis
      by (simp add: add_proposal_def validate_proposal_with_grant_def)
  qed
next
  assume "truthy (not_financial p)"
  then show "fst (add_proposal (p\<lparr>finance_recipients := r\<rparr>) s) = fst (add_proposal p s)"
    by (simp add: add_proposal_def grantless_ignores_recipients split: sum.splits option.splits)
next
  assume a: "truthy (not_financial p) \<and> other_fields_well_typed p"
  then have v: "validate_grantless_proposal p = Inr ()"
    by (simp add: grantless_well_typed)
  from a have "isinstance_int (voting_message_id p)"
    by (simp add: other_fields_well_typed_def)
  then obtain k where k: "int_value (voting_message_id p) = Some k"
    using isinstance_int_value by blast
  with a v show "\<exists>k s'. add_proposal p s = (Inr (), s') \<and> int_value (voting_message_id p) = Some k
           \<and> map_of (proposals s') k = Some p"
    by (simp add: add_proposal_def logger_def map_of_update_same)
qed

theorem recipients_required_iff_financial_witness:
  "\<not> truthy (not_financial (proposal_b\<lparr>finance_recipients := PyNone\<rparr>))
   \<and> \<not> isinstance_InstrumentedList (finance_recipients (proposal_b\<lparr>finance_recipients := PyNone\<rparr>))
   \<and> (\<exists>f v. add_proposal (proposal_b\<lparr>finance_recipients := PyNone\<rparr>) empty_registry
          = (Inl (ValueError_field f v), empty_registry))
   \<and> truthy (not_financial proposal_a) \<and> other_fields_well_typed proposal_a
   \<and> fst (add_proposal (proposal_a\<lparr>finance_recipients := PyList []\<rparr>) empty_registry)
       = fst (add_proposal proposal_a empty_registry)
   \<and> (\<exists>k s'. add_proposal proposal_a empty_registry = (Inr (), s')
          \<and> int_value (voting_message_id proposal_a) = Some k
          \<and> map_of (proposals s') k = Some proposal_a)"
proof -
  let ?b = "proposal_b\<lparr>finance_recipients := PyNone\<rparr>"
  have b: "\<not> truthy (not_financial ?b) \<and> \<not> isinstance_InstrumentedList (finance_recipients ?b)"
    by (simp add: proposal_b_def)
  have a: "truthy (not_financial proposal_a) \<and> other_fields_well_typed proposal_a"
    by (simp add: proposal_a_def other_fields_well_typed_def)
  from recipients_required_iff_financial [of ?b empty_registry]
    recipients_required_iff_financial [of proposal_a empty_registry "PyList []"] a b
  show ?thesis by blast
qed

text \<open>
  C9 as amended: the two-argument \<^verbatim>\<open>add_proposal\<close> with a storage handle that is a
  \<^verbatim>\<open>DBUtil\<close> instance and is falsy raises its generic exception only after the
  one-argument insert has run: whenever that insert succeeds, the exception leaves the
  function with the new proposal in the in-memory registry and nothing written to the
  store; when the insert itself raises, that error comes out and the state is untouched.
  A handle of any other class does not reach the overload: the dispatcher raises
  \<^verbatim>\<open>NotImplementedError\<close> and the registry is as it was.
\<close>

theorem add_proposal_db_not_atomic:
  "(fst (add_proposal p s) = Inr () \<longrightarrow>
      (\<exists>k s'. add_proposal_db (DBUtil_instance False) fault p s = (Inl Exception_incorrect_db, s')
         \<and> int_value (voting_message_id p) = Some k
         \<and> map_of (proposals s') k = Some p
         \<and> stored_proposals s' = stored_proposals s))
   \<and> (\<forall>e. fst (add_proposal p s) = Inl e \<longrightarrow>
         add_proposal_db (DBUtil_instance False) fault p s = (Inl e, s))
   \<and> add_proposal_db (Other_object v) fault p s = (Inl NotImplementedError_no_signature, s)"
proof (intro conjI impI allI)
  assume "fst (add_proposal p s) = Inr ()"
  then obtain s1 where s1: "add_proposal p s = (Inr (), s1)"
    by (cases "add_proposal p s") simp
  from add_proposal_Inr [OF s1] obtain k where
    k: "int_value (voting_message_id p) = Some k" and
    eq: "s1 = logger INFO (Added_proposal (voting_message_id p))
                (s\<lparr>proposals := AList.update k p (proposals s)\<rparr>)"
    by blast
  have "add_proposal_db (DBUtil_instance False) fault p s = (Inl Exception_incorrect_db, s1)"
    by (simp add: add_proposal_db_def s1)
  moreover have "map_of (proposals s1) k = Some p" "stored_proposals s1 = stored_proposals s"
    by (simp_all add: eq logger_def map_of_update_same)
  ultimately show "\<exists>k s'. add_proposal_db (DBUtil_instance False) fault p s
                             = (Inl Exception_incorrect_db, s')
         \<and> int_value (voting_message_id p) = Some k
         \<and> map_of (proposals s') k = Some p
         \<and> stored_proposals s' = stored_proposals s"
    using k by blast
next
  fix e assume "fst (add_proposal p s) = Inl e"
  then obtain s1 where s1: "add_proposal p s = (Inl e, s1)"
    by (cases "add_proposal p s") simp
  with add_proposal_Inl [OF s1]
  show "add_proposal_db (DBUtil_instance False) fault p s = (Inl e, s)"
    by (simp add: add_proposal_db_def)
next
  show "add_proposal_db (Other_object v) fault p s = (Inl NotImplementedError_no_signature, s)"
    by (simp add: add_proposal_db_def)
qed

theorem add_proposal_db_not_atomic_witness:
  "\<not> handle_truthy (DBUtil_instance False)
   \<and> fst (add_proposal proposal_a empty_registry) = Inr ()
   \<and> (\<exists>s'. add_proposal_db (DBUtil_instance False) None proposal_a empty_registry
               = (Inl Exception_incorrect_db, s')
         \<and> map_of (proposals s') 1001 = Some proposal_a
         \<and> stored_proposals s' = [])
   \<and> fst (add_proposal (proposal_a\<lparr>description := PyNone\<rparr>) empty_registry)
       = Inl (ValueError_field ''description'' PyNone)
   \<and> add_proposal_db (DBUtil_instance False) None (proposal_a\<lparr>description := PyNone\<rparr>)
         empty_registry
       = (Inl (ValueError_field ''description'' PyNone), empty_registry)"
proof -
  have h1: "fst (add_proposal proposal_a empty_registry) = Inr ()"
    by (simp add: add_proposal_def validate_grantless_proposal_def proposal_a_def)
  have k: "int_value (voting_message_id proposal_a) = Some 1001"
    by (simp add: proposal_a_def)
  have h2: "fst (add_proposal (proposal_a\<lparr>description := PyNone\<rparr>) empty_registry)
       = Inl (ValueError_field ''description'' PyNone)"
    by (simp add: add_proposal_def validate_grantless_proposal_def proposal_a_def)
  have s: "stored_proposals empty_registry = []"
    by (simp add: empty_registry_def)
  from add_proposal_db_not_atomic [of proposal_a empty_registry None]
    add_proposal_db_not_atomic [of "proposal_a\<lparr>description := PyNone\<rparr>" empty_registry None]
    h1 h2 k s
  show ?thesis by auto
qed

text \<open>
  The claim C9 as stated fails for the falsy handle \<^verbatim>\<open>None\<close>: the proposal is one that
  the one-argument insert accepts, but the call ends in the dispatcher's
  \<^verbatim>\<open>NotImplementedError\<close>, not in the generic exception, and the registry is still empty.
\<close>

theorem add_proposal_db_not_atomic_counterexample:
  "\<not> handle_truthy (Other_object PyNone)
   \<and> fst (add_proposal proposal_a empty_registry) = Inr ()
   \<and> add_proposal_db (Other_object PyNone) None proposal_a empty_registry
       = (Inl NotImplementedError_no_signature, empty_registry)
   \<and> proposals empty_registry = []"
  by (simp add: add_proposal_db_def add_proposal_def validate_grantless_proposal_def
      proposal_a_def empty_registry_def)

text \<open>
  With a truthy \<^verbatim>\<open>DBUtil\<close> instance the overload inserts in memory, then in the store,
  and logs both.
\<close>

lemma add_proposal_db_stores:
  assumes "add_proposal p s = (Inr (), s1)"
  shows "add_proposal_db (DBUtil_instance True) None p s =
           (Inr (), s1\<lparr>stored_proposals := stored_proposals s1 @ [p],
                      utils_log := utils_log s1 @ [(INFO, Inserted_proposal_into_DB p)]\<rparr>)"
  using assms by (simp add: add_proposal_db_def db_add_def logger_def)

section \<open>Properties of the transaction executor\<close>

lemmas stmt_defs = and_then_def return_def raise_def try_except_def external_def log_call_def

lemmas collaborator_defs =
  add_reaction_def reply_call_def get_user_free_funding_balance_def db_add_balance_def
  db_save_def add_free_transactions_history_item_def is_recovery_def grant_channel_send_def
  grant_message_edit_def channel_send_notice_def validate_free_transaction_call_def
  validate_roles_call_def send_free_funding_balance_def

text \<open>
  C3: a run of \<^verbatim>\<open>send_transaction\<close> that the validator accepts and that returns leaves
  the author's balance at the prior balance minus the amount times the number of
  recipients, appends exactly one history record, whose amount is the amount times the
  number of recipients, and adds the success reaction.
\<close>

theorem send_transaction_success:
  fixes env :: "'n::{times,minus} env"
  assumes "send_transaction env ctx original_message mentions amount descr w = (Inr (), w')"
    and "validate_free_transaction env original_message (ctx_author_mention ctx)
           (prior_balance env (ctx_author_mention ctx) w) mentions amount descr"
  shows "map_of (balances w') (ctx_author_mention ctx)
           = Some (prior_balance env (ctx_author_mention ctx) w
                     - amount * number_of_len env (length mentions))
       \<and> history w' = history w @
            [\<lparr>tx_author = ctx_author_mention ctx,
              tx_mentions = join (FREE_FUNDING_MENTIONS_COLUMN_SEPARATOR env) mentions,
              tx_amount = amount * number_of_len env (length mentions),
              tx_description = descr,
              tx_submitted_at = datetime_now env\<rparr>]
       \<and> reactions w' = reactions w @ [REACTION_ON_TRANSACTION_SUCCEED]"
  using assms
  by (auto simp: send_transaction_def Let_def stmt_defs collaborator_defs prior_balance_def
      update_conv' split: option.splits if_splits)

lemmas example_defs =
  example_env_def example_validator_def message_tip_def message_bad_amount_def
  message_no_mention_def ctx_of_def world_of_def outage_env_def

theorem send_transaction_success_witness:
  "send_transaction example_env (ctx_of message_tip) message_tip [''<@2>''] 20 ''thanks''
       (world_of [(''<@1>'', 100)])
     = (Inr (), snd (send_transaction example_env (ctx_of message_tip) message_tip [''<@2>''] 20
                      ''thanks'' (world_of [(''<@1>'', 100)])))
   \<and> validate_free_transaction example_env message_tip ''<@1>'' 100 [''<@2>''] 20 ''thanks''
   \<and> map_of (balances (snd (send_transaction example_env (ctx_of message_tip) message_tip
         [''<@2>''] 20 ''thanks'' (world_of [(''<@1>'', 100)])))) ''<@1>'' = Some 80
   \<and> history (snd (send_transaction example_env (ctx_of message_tip) message_tip
         [''<@2>''] 20 ''thanks'' (world_of [(''<@1>'', 100)])))
       = [\<lparr>tx_author = ''<@1>'', tx_mentions = ''<@2>'', tx_amount = 20,
           tx_description = ''thanks'', tx_submitted_at = 1700000000\<rparr>]
   \<and> reactions (snd (send_transaction example_env (ctx_of message_tip) message_tip
         [''<@2>''] 20 ''thanks'' (world_of [(''<@1>'', 100)])))
       = [REACTION_ON_TRANSACTION_SUCCEED]"
proof -
  let ?w = "world_of [(''<@1>'', 100)]"
  let ?run = "send_transaction example_env (ctx_of message_tip) message_tip [''<@2>''] 20 ''thanks'' ?w"
  have run: "?run = (Inr (), snd ?run)"
    by (simp add: send_transaction_def Let_def stmt_defs collaborator_defs example_defs)
  have prior: "prior_balance example_env (ctx_author_mention (ctx_of message_tip)) ?w = 100"
    by (simp add: prior_balance_def example_defs)
  have ok: "validate_free_transaction example_env message_tip ''<@1>'' 100 [''<@2>''] 20 ''thanks''"
    by (simp add: example_defs)
  have ok': "validate_free_transaction example_env message_tip (ctx_author_mention (ctx_of message_tip))
      (prior_balance example_env (ctx_author_mention (ctx_of message_tip)) ?w) [''<@2>''] 20 ''thanks''"
    unfolding prior using ok by (simp add: ctx_of_def)
  from send_transaction_success [OF run ok'] prior
  have "map_of (balances (snd ?run)) ''<@1>'' = Some 80
      \<and> history (snd ?run)
          = [\<lparr>tx_author = ''<@1>'', tx_mentions = ''<@2>'', tx_amount = 20,
              tx_description = ''thanks'', tx_submitted_at = 1700000000\<rparr>]
      \<and> reactions (snd ?run) = [REACTION_ON_TRANSACTION_SUCCEED]"
    by (simp add: example_defs)
  with run ok show ?thesis by blast
qed

text \<open>
  C4 as amended: in a run of \<^verbatim>\<open>send_transaction\<close> in which the validator rejects the
  transaction and the function returns, the author's balance has its prior value, no
  history record is created, the failure reaction is applied and nothing is sent to the
  grant channel.  For an author who has a balance record nothing else changes; for an
  author without one, the record is created at the season limit, and the creation logged,
  before the validator runs.
\<close>

theorem send_transaction_rejected:
  fixes env :: "'n::{times,minus} env"
  assumes "send_transaction env ctx original_message mentions amount descr w = (Inr (), w')"
    and "\<not> validate_free_transaction env original_message (ctx_author_mention ctx)
             (prior_balance env (ctx_author_mention ctx) w) mentions amount descr"
  shows "map_of (balances w') (ctx_author_mention ctx)
           = Some (prior_balance env (ctx_author_mention ctx) w)
       \<and> history w' = history w
       \<and> reactions w' = reactions w @ [REACTION_ON_TRANSACTION_FAILED]
       \<and> grant_channel w' = grant_channel w
       \<and> w' = (if map_of (balances w) (ctx_author_mention ctx) = None
               then w\<lparr>balances := AList.update (ctx_author_mention ctx)
                                    (FREE_FUNDING_LIMIT_PERSON_PER_SEASON env) (balances w),
                      reactions := reactions w @ [REACTION_ON_TRANSACTION_FAILED],
                      transact_log := transact_log w @
                        [(DEBUG, Added_free_funding_balance (ctx_author_mention ctx))]\<rparr>
               else w\<lparr>reactions := reactions w @ [REACTION_ON_TRANSACTION_FAILED]\<rparr>)"
  using assms
  by (auto simp: send_transaction_def Let_def stmt_defs collaborator_defs prior_balance_def
      update_conv' split: option.splits if_splits)

theorem send_transaction_rejected_witness:
  "send_transaction example_env (ctx_of message_tip) message_tip [''<@2>''] 20 ''thanks''
       (world_of [(''<@1>'', 10)])
     = (Inr (), (world_of [(''<@1>'', 10)])\<lparr>reactions := [REACTION_ON_TRANSACTION_FAILED]\<rparr>)
   \<and> \<not> validate_free_transaction example_env message_tip ''<@1>'' 10 [''<@2>''] 20 ''thanks''
   \<and> map_of (balances ((world_of [(''<@1>'', 10)])\<lparr>reactions := [REACTION_ON_TRANSACTION_FAILED]\<rparr>))
        ''<@1>'' = Some 10
   \<and> history ((world_of [(''<@1>'', 10)])\<lparr>reactions := [REACTION_ON_TRANSACTION_FAILED]\<rparr>) = []"
proof -
  let ?w = "world_of [(''<@1>'', 10)]"
  let ?w' = "?w\<lparr>reactions := [REACTION_ON_TRANSACTION_FAILED]\<rparr>"
  have run: "send_transaction example_env (ctx_of message_tip) message_tip [''<@2>''] 20 ''thanks'' ?w
               = (Inr (), ?w')"
    by (simp add: send_transaction_def Let_def stmt_defs collaborator_defs example_defs)
  have prior: "prior_balance example_env (ctx_author_mention (ctx_of message_tip)) ?w = 10"
    by (simp add: prior_balance_def example_defs)
  have no: "\<not> validate_free_transaction example_env message_tip ''<@1>'' 10 [''<@2>''] 20 ''thanks''"
    by (simp add: example_defs)
  have no': "\<not> validate_free_transaction example_env message_tip (ctx_author_mention (ctx_of message_tip))
      (prior_balance example_env (ctx_author_mention (ctx_of message_tip)) ?w) [''<@2>''] 20 ''thanks''"
    unfolding prior using no by (simp add: ctx_of_def)
  from send_transaction_rejected [OF run no'] prior
  have "map_of (balances ?w') ''<@1>'' = Some 10 \<and> history ?w' = []"
    by (simp add: example_defs)
  with run no show ?thesis by blast
qed

text \<open>
  The claim C4 as stated fails for an author without a balance record: the validator
  rejects 120 against the season limit of 100, and the run has yet created the author's
  record and logged its creation.
\<close>

theorem send_transaction_rejected_counterexample:
  "send_transaction example_env (ctx_of message_tip) message_tip [''<@2>''] 120 ''thanks''
       (world_of [])
     = (Inr (), (world_of [])\<lparr>balances := [(''<@1>'', 100)],
                  reactions := [REACTION_ON_TRANSACTION_FAILED],
                  transact_log := [(DEBUG, Added_free_funding_balance ''<@1>'')]\<rparr>)
   \<and> \<not> validate_free_transaction example_env message_tip ''<@1>'' 100 [''<@2>''] 120 ''thanks''
   \<and> balances (world_of []) = []
   \<and> balances (snd (send_transaction example_env (ctx_of message_tip) message_tip [''<@2>''] 120
        ''thanks'' (world_of []))) \<noteq> balances (world_of [])"
  by (simp add: send_transaction_def Let_def stmt_defs collaborator_defs example_defs)


text \<open>
  What the handler of a failed grant notification does when its own notice to the channel
  is delivered: after a debit that has been saved, the exception of the notification comes
  out of \<^verbatim>\<open>send_transaction\<close>, the balance keeps the debited value, the error is logged
  at critical severity and no history record is written.
\<close>

lemma grant_failure_reraised:
  fixes env :: "'n::{times,minus} env"
  assumes "raises env Get_user_free_funding_balance = None" and "raises env Db_add = None"
    and "raises env Validate_free_transaction = None" and "raises env Db_save = None"
    and "validate_free_transaction env original_message (ctx_author_mention ctx)
           (prior_balance env (ctx_author_mention ctx) w) mentions amount descr"
    and "grant_notification_raises env = Some e"
    and "raises env Channel_send_notice = None"
  shows "\<exists>w'. send_transaction env ctx original_message mentions amount descr w = (Inl e, w')
           \<and> map_of (balances w') (ctx_author_mention ctx)
               = Some (prior_balance env (ctx_author_mention ctx) w
                         - amount * number_of_len env (length mentions))
           \<and> history w' = history w
           \<and> channel_notices w' = channel_notices w @ [Could_not_apply_grant]
           \<and> (CRITICAL, Error_sending_grant_message (msg_id original_message))
               \<in> set (transact_log w')"
  using assms
  by (auto simp: send_transaction_def Let_def stmt_defs collaborator_defs prior_balance_def
      grant_notification_raises_def update_conv' split: option.splits if_splits)

lemma grant_failure_reraised_example:
  "send_transaction
       (example_env\<lparr>raises := (\<lambda>c. if c = Grant_channel_send
                                      then Some (Raised ''grant channel unreachable'') else None)\<rparr>)
       (ctx_of message_tip) message_tip [''<@2>''] 20 ''thanks'' (world_of [(''<@1>'', 100)])
     = (Inl (Raised ''grant channel unreachable''),
        (world_of [(''<@1>'', 80)])
          \<lparr>channel_notices := [Could_not_apply_grant],
           transact_log := [(CRITICAL, Error_sending_grant_message 1)]\<rparr>)"
  by (simp add: send_transaction_def Let_def stmt_defs collaborator_defs example_defs)

text \<open>
  C2 at the failing input: the platform is unreachable, so the grant message cannot be sent
  and neither can the notice that the handler sends first.  The debit of 20 from 100 stays,
  no history record is written, but the exception that comes out is the notice's, not the
  notification's, and nothing has been logged: \<^verbatim>\<open>logger.critical\<close> is never reached.
\<close>

theorem grant_failure_notice_failure:
  "send_transaction outage_env (ctx_of message_tip) message_tip [''<@2>''] 20 ''thanks''
       (world_of [(''<@1>'', 100)])
     = (Inl (Raised ''channel unreachable''), world_of [(''<@1>'', 80)])
   \<and> grant_notification_raises outage_env = Some (Raised ''grant channel unreachable'')
   \<and> transact_log (world_of [(''<@1>'', 80)]) = []"
  by (simp add: send_transaction_def Let_def stmt_defs collaborator_defs example_defs
      grant_notification_raises_def)

section \<open>Properties of the command handler\<close>

text \<open>\<^verbatim>\<open>split()\<close> breaks the mentions at a no-break space as it does at a blank.\<close>

lemma str_split_examples:
  "str_split ''<@1> <@2>  '' = [''<@1>'', ''<@2>'']"
  "str_split (''<@1>'' @ [CHR 0xA0] @ ''<@2>'') = [''<@1>'', ''<@2>'']"
  by (simp_all add: str_split_def isspace_def)

text \<open>
  A command of three or more arguments whose message has no platform-resolved mention
  passes the gates and then meets no branch at all: the handler returns without reply,
  reaction or transaction, and only the debug record of its receipt is left.
\<close>

lemma command_without_mention_ignored:
  fixes env :: "'n::{times,minus} env"
  assumes "3 \<le> length args"
    and "\<not> stop_file_exists env" and "\<not> recovery w" and "validate_roles env (ctx_author_mention ctx)"
    and "raises env Fetch_message = None" and "raises env Is_recovery = None"
    and "raises env Validate_roles = None"
    and "msg_mentions (fetch_message env (msg_id (ctx_message ctx))) = []"
  shows "free_funding_transact_command env ctx args w =
           (Inr (), w\<lparr>transact_log := transact_log w @
                        [(DEBUG, Transaction_received (msg_content (ctx_message ctx)))]\<rparr>)"
  using assms
  by (auto simp: free_funding_transact_command_def command_body_def Let_def stmt_defs
      collaborator_defs)

text \<open>
  The error boundary: whatever happens inside, the command itself returns; an exception of
  the body ends in the handler's critical log record.
\<close>

lemma free_funding_transact_command_returns:
  fixes env :: "'n::{times,minus} env"
  shows "fst (free_funding_transact_command env ctx args w) = Inr ()"
  by (simp add: free_funding_transact_command_def stmt_defs split: prod.splits sum.splits option.splits)

text \<open>
  C7 as amended: a command with at least three arguments that has passed the pause, the
  recovery and the role gate, and whose message has a platform-resolved mention.  If the
  pattern does not match the command text, the user receives the invalid-format reply and
  the failure reaction (the two platform calls returning), the rejection is logged, and no
  transaction is attempted: balances, history and grant channel are as before.
\<close>

theorem malformed_command:
  fixes env :: "'n::{times,minus} env"
  assumes "3 \<le> length args"
    and "\<not> stop_file_exists env" and "\<not> recovery w" and "validate_roles env (ctx_author_mention ctx)"
    and "raises env Fetch_message = None" and "raises env Is_recovery = None"
    and "raises env Validate_roles = None"
    and "raises env Reply = None" and "raises env Add_reaction = None"
    and "original_message = fetch_message env (msg_id (ctx_message ctx))"
    and "msg_mentions original_message \<noteq> []"
    and "re_search env (msg_content (ctx_message ctx)) = None"
  shows "free_funding_transact_command env ctx args w =
           (Inr (), w\<lparr>reactions := reactions w @ [REACTION_ON_TRANSACTION_FAILED],
                      replies := replies w @ [ERROR_MESSAGE_FREE_FUNDING_INVALID_COMMAND_FORMAT],
                      transact_log := transact_log w @
                        [(DEBUG, Transaction_received (msg_content (ctx_message ctx))),
                         (INFO, Invalid_command_format (msg_id original_message)
                                  (msg_content original_message))]\<rparr>)"
  using assms
  by (auto simp: free_funding_transact_command_def command_body_def invalid_command_format_def
      Let_def stmt_defs collaborator_defs)

theorem malformed_command_witness:
  "3 \<le> length [''<@2>'', ''twenty'', ''thanks'']
   \<and> msg_mentions (fetch_message example_env (msg_id (ctx_message (ctx_of message_bad_amount)))) \<noteq> []
   \<and> re_search example_env (msg_content (ctx_message (ctx_of message_bad_amount))) = None
   \<and> free_funding_transact_command example_env (ctx_of message_bad_amount)
         [''<@2>'', ''twenty'', ''thanks''] (world_of [(''<@1>'', 100)])
       = (Inr (), (world_of [(''<@1>'', 100)])
            \<lparr>reactions := [REACTION_ON_TRANSACTION_FAILED],
             replies := [ERROR_MESSAGE_FREE_FUNDING_INVALID_COMMAND_FORMAT],
             transact_log := [(DEBUG, Transaction_received ''!tip <@2> twenty thanks''),
                              (INFO, Invalid_command_format 2 ''!tip <@2> twenty thanks'')]\<rparr>)"
proof -
  let ?w = "world_of [(''<@1>'', 100)]"
  have gates: "\<not> stop_file_exists example_env" "\<not> recovery ?w"
    "validate_roles example_env (ctx_author_mention (ctx_of message_bad_amount))"
    "raises example_env Fetch_message = None" "raises example_env Is_recovery = None"
    "raises example_env Validate_roles = None" "raises example_env Reply = None"
    "raises example_env Add_reaction = None"
    by (simp_all add: example_defs)
  have three: "3 \<le> length [''<@2>'', ''twenty'', ''thanks'']"
    by simp
  have fetched: "message_bad_amount
      = fetch_message example_env (msg_id (ctx_message (ctx_of message_bad_amount)))"
    by (simp add: example_defs)
  have bad: "msg_mentions message_bad_amount \<noteq> []"
    "re_search example_env (msg_content (ctx_message (ctx_of message_bad_amount))) = None"
    by (simp_all add: example_defs)
  from malformed_command [OF three gates fetched bad]
  have "free_funding_transact_command example_env (ctx_of message_bad_amount)
             [''<@2>'', ''twenty'', ''thanks''] ?w
           = (Inr (), ?w\<lparr>reactions := [REACTION_ON_TRANSACTION_FAILED],
                replies := [ERROR_MESSAGE_FREE_FUNDING_INVALID_COMMAND_FORMAT],
                transact_log := [(DEBUG, Transaction_received ''!tip <@2> twenty thanks''),
                                 (INFO, Invalid_command_format 2 ''!tip <@2> twenty thanks'')]\<rparr>)"
    by (simp add: example_defs)
  with three bad fetched show ?thesis by simp
qed

text \<open>
  The claim C7 as stated fails on two commands of three arguments.  The first has no
  platform-resolved mention: the handler returns with no reply and no reaction.  The
  second has a mention and text that the pattern does not match, but arrives while the
  stop file exists: the reply it receives is the paused response.
\<close>

theorem malformed_command_counterexample:
  "3 \<le> length [''123'', ''20'', ''thanks'']
   \<and> msg_mentions (fetch_message example_env (msg_id (ctx_message (ctx_of message_no_mention)))) = []
   \<and> free_funding_transact_command example_env (ctx_of message_no_mention) [''123'', ''20'', ''thanks'']
       (world_of [(''<@1>'', 100)])
     = (Inr (), (world_of [(''<@1>'', 100)])
          \<lparr>transact_log := [(DEBUG, Transaction_received ''!tip 123 20 thanks'')]\<rparr>)
   \<and> replies ((world_of [(''<@1>'', 100)])
          \<lparr>transact_log := [(DEBUG, Transaction_received ''!tip 123 20 thanks'')]\<rparr>) = []
   \<and> reactions ((world_of [(''<@1>'', 100)])
          \<lparr>transact_log := [(DEBUG, Transaction_received ''!tip 123 20 thanks'')]\<rparr>) = []
   \<and> 3 \<le> length [''<@2>'', ''twenty'', ''thanks'']
   \<and> re_search paused_env (msg_content (ctx_message (ctx_of message_bad_amount))) = None
   \<and> free_funding_transact_command paused_env (ctx_of message_bad_amount)
         [''<@2>'', ''twenty'', ''thanks''] (world_of [(''<@1>'', 100)])
       = (Inr (), (world_of [(''<@1>'', 100)])
            \<lparr>reactions := [REACTION_ON_TRANSACTION_FAILED],
             replies := [FREE_FUNDING_PAUSED_RESPONSE],
             transact_log := [(DEBUG, Transaction_received ''!tip <@2> twenty thanks''),
                              (INFO, Rejecting_stopcock_file ''<@1>'')]\<rparr>)"
  by (simp add: free_funding_transact_command_def command_body_def invalid_command_format_def
      Let_def stmt_defs collaborator_defs example_defs paused_env_def)

end
